theory Spec2Isabelle
  imports Main "HOL-Library.Sublist"
begin

section \<open>Values, failures and observable events of the demonstration scripts\<close>

text \<open>
  The repository holds two straight-line Python scripts, \<^verbatim>\<open>gs_similarity.py\<close> and
  \<^verbatim>\<open>gs_train_model.py\<close>, and a module \<^verbatim>\<open>gensim_exm.py\<close> whose only
  statement is a docstring. Every computation is delegated to an external word-vector
  library whose code is not part of the repository; the scripts only import names, call
  library entry points, index and format the results, and print.

  The library is therefore a parameter of the model (the record \<open>gensim\<close> below), with
  an explicit world state \<open>'w\<close> that every library call may read and change. The
  scripts are state transformers over the interpreter state: the world, the module
  globals (a map from names to values) and the trace of events the process performs
  (library calls with their arguments and outcome, and printed lines).
\<close>

text \<open>The library entry points the scripts name.\<close>

datatype api =
    Import
  | Api_load
  | Word2Vec_init
  | Wv
  | Most_similar
  | Most_similar_cosmul
  | Doesnt_match
  | Similarity
  | Similar_by_word
  | Wmdistance
  | Distance
  | N_similarity
  | Getitem
  | Word_vec
  | Shape
  | Datapath
  | Evaluate_word_pairs
  | Evaluate_word_analogies

text \<open>
  Python values as far as the scripts handle them. \<open>'o\<close> is the type of the library's
  own objects (keyed vectors, trained models, arrays, evaluation results), \<open>'r\<close> the
  type of its floating-point numbers; both are opaque to the scripts.
\<close>

datatype ('o, 'r) pyval =
    VStr string
  | VStrs "string list"
  | VCorpus "string list list"
  | VInt int
  | VBool bool
  | VFloat 'r
  | VPair string 'r
  | VPairs "(string \<times> 'r) list"
  | VShape "nat list"
  | VObj 'o
  | VModule string
  | VFunction api

text \<open>
  What the interpreter can raise: the failures of the script's own expressions, and
  \<open>Raised e\<close> for an exception \<open>e\<close> that a library call raised.
\<close>

datatype 'e py_error =
    NameError string
  | ImportError string
  | AttributeError string
  | TypeError
  | IndexError
  | Raised 'e

datatype ('e, 'o, 'r) event =
    Call api "('o, 'r) pyval list" "(string \<times> ('o, 'r) pyval) list" "'e + ('o, 'r) pyval"
  | Print string

type_synonym ('w, 'e, 'a) libop = "'w \<Rightarrow> ('e + 'a) \<times> 'w"

text \<open>
  The external library, as the scripts use it. Each entry point takes the world and
  returns either the exception it raises or its result, and the new world.
  \<open>float_format n x\<close> is \<^verbatim>\<open>"{:.nf}".format(x)\<close>, \<open>float_lit m e\<close> the literal
  \<open>m * 10^e\<close> and \<open>float_less\<close> the comparison of two numbers.
\<close>

record ('w, 'e, 'o, 'r) gensim =
  import_module :: "string \<Rightarrow> ('w, 'e, unit) libop"
  common_texts :: "string list list"
  api_load :: "string \<Rightarrow> ('w, 'e, 'o) libop"
  Word2Vec :: "string list list \<Rightarrow> (string \<times> int) list \<Rightarrow> ('w, 'e, 'o) libop"
  wv :: "'o \<Rightarrow> ('w, 'e, 'o) libop"
  most_similar :: "'o \<Rightarrow> string list \<Rightarrow> string list \<Rightarrow> ('w, 'e, (string \<times> 'r) list) libop"
  most_similar_cosmul :: "'o \<Rightarrow> string list \<Rightarrow> string list \<Rightarrow> ('w, 'e, (string \<times> 'r) list) libop"
  doesnt_match :: "'o \<Rightarrow> string list \<Rightarrow> ('w, 'e, string) libop"
  similarity :: "'o \<Rightarrow> string \<Rightarrow> string \<Rightarrow> ('w, 'e, 'r) libop"
  similar_by_word :: "'o \<Rightarrow> string \<Rightarrow> ('w, 'e, (string \<times> 'r) list) libop"
  wmdistance :: "'o \<Rightarrow> string list \<Rightarrow> string list \<Rightarrow> ('w, 'e, 'r) libop"
  distance :: "'o \<Rightarrow> string \<Rightarrow> string \<Rightarrow> ('w, 'e, 'r) libop"
  n_similarity :: "'o \<Rightarrow> string list \<Rightarrow> string list \<Rightarrow> ('w, 'e, 'r) libop"
  getitem :: "'o \<Rightarrow> string \<Rightarrow> ('w, 'e, 'o) libop"
  word_vec :: "'o \<Rightarrow> string \<Rightarrow> bool \<Rightarrow> ('w, 'e, 'o) libop"
  shape :: "'o \<Rightarrow> ('w, 'e, nat list) libop"
  datapath :: "string \<Rightarrow> ('w, 'e, string) libop"
  evaluate_word_pairs :: "'o \<Rightarrow> string \<Rightarrow> ('w, 'e, 'o) libop"
  evaluate_word_analogies :: "'o \<Rightarrow> string \<Rightarrow> ('w, 'e, 'o) libop"
  float_format :: "nat \<Rightarrow> 'r \<Rightarrow> string"
  float_lit :: "int \<Rightarrow> int \<Rightarrow> 'r"
  float_less :: "'r \<Rightarrow> 'r \<Rightarrow> bool"

record ('w, 'e, 'o, 'r) pstate =
  world :: 'w
  globals :: "string \<rightharpoonup> ('o, 'r) pyval"
  trace :: "('e, 'o, 'r) event list"

type_synonym ('w, 'e, 'o, 'r, 'a) prog =
  "('w, 'e, 'o, 'r) pstate \<Rightarrow> ('e py_error + 'a) \<times> ('w, 'e, 'o, 'r) pstate"


section \<open>The interpreter: straight-line statements over the state\<close>

definition return :: "'a \<Rightarrow> ('w, 'e, 'o, 'r, 'a) prog" where
  "return a s = (Inr a, s)"

definition raise :: "'e py_error \<Rightarrow> ('w, 'e, 'o, 'r, 'a) prog" where
  "raise x s = (Inl x, s)"

text \<open>
  Sequencing: a failure of the first computation is the failure of the whole, with the
  state as the failure left it. The scripts contain no \<^verbatim>\<open>try\<close> statement, so
  this is the only way the model combines computations.
\<close>

definition bind ::
  "('w, 'e, 'o, 'r, 'a) prog \<Rightarrow> ('a \<Rightarrow> ('w, 'e, 'o, 'r, 'b) prog) \<Rightarrow> ('w, 'e, 'o, 'r, 'b) prog" where
  "bind m f s = (case m s of (Inl x, s') \<Rightarrow> (Inl x, s') | (Inr a, s') \<Rightarrow> f a s')"

text \<open>Reading a global name; an unbound name raises \<^verbatim>\<open>NameError\<close>.\<close>

definition name :: "string \<Rightarrow> ('w, 'e, 'o, 'r, ('o, 'r) pyval) prog" where
  "name x s = (case globals s x of None \<Rightarrow> (Inl (NameError x), s) | Some v \<Rightarrow> (Inr v, s))"

definition assign ::
  "string \<Rightarrow> ('w, 'e, 'o, 'r, ('o, 'r) pyval) prog \<Rightarrow> ('w, 'e, 'o, 'r, unit) prog" where
  "assign x e = bind e (\<lambda>v s. (Inr (), s\<lparr>globals := (globals s)(x \<mapsto> v)\<rparr>))"

definition expr_stmt :: "('w, 'e, 'o, 'r, 'a) prog \<Rightarrow> ('w, 'e, 'o, 'r, unit) prog" where
  "expr_stmt e = bind e (\<lambda>_. return ())"

definition print_stmt :: "('w, 'e, 'o, 'r, string) prog \<Rightarrow> ('w, 'e, 'o, 'r, unit) prog" where
  "print_stmt e = bind e (\<lambda>t s. (Inr (), s\<lparr>trace := trace s @ [Print t]\<rparr>))"

text \<open>
  A call into the library: the entry point runs on the current world, the call is
  recorded in the trace with its arguments and outcome, and an exception of the library
  becomes the failure \<open>Raised e\<close> of the calling expression, unchanged.
\<close>

definition invoke ::
  "api \<Rightarrow> ('o, 'r) pyval list \<Rightarrow> (string \<times> ('o, 'r) pyval) list \<Rightarrow> ('a \<Rightarrow> ('o, 'r) pyval) \<Rightarrow>
   ('w, 'e, 'a) libop \<Rightarrow> ('w, 'e, 'o, 'r, ('o, 'r) pyval) prog" where
  "invoke a args kwargs wrap f s =
     (case f (world s) of (r, w') \<Rightarrow>
        (case r of Inl e \<Rightarrow> Inl (Raised e) | Inr v \<Rightarrow> Inr (wrap v),
         s\<lparr>world := w', trace := trace s @ [Call a args kwargs (map_sum id wrap r)]\<rparr>))"

text \<open>
  The statements of a module run top to bottom; the first failure ends the run.
\<close>

fun run_stmts :: "('w, 'e, 'o, 'r, unit) prog list \<Rightarrow> ('w, 'e, 'o, 'r, unit) prog" where
  "run_stmts [] s = (Inr (), s)"
| "run_stmts (c # cs) s =
     (case c s of (Inl x, s') \<Rightarrow> (Inl x, s') | (Inr _, s') \<Rightarrow> run_stmts cs s')"

text \<open>
  Running a module as a script starts from the given world with no global bound and
  nothing done yet; \<open>run_in\<close> runs it in globals that are already populated (an
  interactive session).
\<close>

definition run_in ::
  "(string \<rightharpoonup> ('o, 'r) pyval) \<Rightarrow> ('w, 'e, 'o, 'r, unit) prog list \<Rightarrow> 'w \<Rightarrow>
   ('e py_error + unit) \<times> ('w, 'e, 'o, 'r) pstate" where
  "run_in g stmts w = run_stmts stmts \<lparr>world = w, globals = g, trace = []\<rparr>"

definition run_script ::
  "('w, 'e, 'o, 'r, unit) prog list \<Rightarrow> 'w \<Rightarrow> ('e py_error + unit) \<times> ('w, 'e, 'o, 'r) pstate" where
  "run_script stmts w = run_in Map.empty stmts w"

subsection \<open>Built-in operations on values\<close>

text \<open>
  \<^verbatim>\<open>str.lower()\<close> and \<^verbatim>\<open>str.split()\<close> on the ASCII literals of the script:
  \<open>split\<close> without argument cuts at runs of whitespace and yields no empty word.
\<close>

definition lower_char :: "char \<Rightarrow> char" where
  "lower_char c =
     (case map_of (zip ''ABCDEFGHIJKLMNOPQRSTUVWXYZ'' ''abcdefghijklmnopqrstuvwxyz'') c of
        None \<Rightarrow> c | Some d \<Rightarrow> d)"

definition py_lower :: "string \<Rightarrow> string" where
  "py_lower s = map lower_char s"

definition is_space :: "char \<Rightarrow> bool" where
  "is_space c = (c \<in> set [CHR '' '', CHR 0x09, CHR 0x0A, CHR 0x0B, CHR 0x0C, CHR 0x0D,
                          CHR 0x1C, CHR 0x1D, CHR 0x1E, CHR 0x1F])"

fun split_words :: "string \<Rightarrow> string \<Rightarrow> string list" where
  "split_words cur [] = (if cur = [] then [] else [cur])"
| "split_words cur (c # cs) =
     (if is_space c then (if cur = [] then [] else [cur]) @ split_words [] cs
      else split_words (cur @ [c]) cs)"

definition py_split :: "string \<Rightarrow> string list" where
  "py_split s = split_words [] s"

text \<open>
  The projections below are the dynamic type checks of the interpreter. With the
  library's signature as given by \<open>gensim\<close>, the scripts only ever apply them to values
  of the expected kind.
\<close>

definition obj_of :: "string \<Rightarrow> ('o, 'r) pyval \<Rightarrow> ('w, 'e, 'o, 'r, 'o) prog" where
  "obj_of attr v = (case v of VObj x \<Rightarrow> return x | _ \<Rightarrow> raise (AttributeError attr))"

definition strs_of :: "('o, 'r) pyval \<Rightarrow> ('w, 'e, 'o, 'r, string list) prog" where
  "strs_of v = (case v of VStrs xs \<Rightarrow> return xs | _ \<Rightarrow> raise TypeError)"

text \<open>\<^verbatim>\<open>e[0]\<close>: the first element of a sequence, \<^verbatim>\<open>IndexError\<close> on an empty one.\<close>

definition index0 ::
  "('w, 'e, 'o, 'r, ('o, 'r) pyval) prog \<Rightarrow> ('w, 'e, 'o, 'r, ('o, 'r) pyval) prog" where
  "index0 e = bind e (\<lambda>v. case v of
       VPairs ps \<Rightarrow> (case ps of [] \<Rightarrow> raise IndexError | p # _ \<Rightarrow> return (VPair (fst p) (snd p)))
     | VStrs xs \<Rightarrow> (case xs of [] \<Rightarrow> raise IndexError | x # _ \<Rightarrow> return (VStr x))
     | VCorpus ts \<Rightarrow> (case ts of [] \<Rightarrow> raise IndexError | t # _ \<Rightarrow> return (VStrs t))
     | VShape ns \<Rightarrow> (case ns of [] \<Rightarrow> raise IndexError | n # _ \<Rightarrow> return (VInt (int n)))
     | VStr cs \<Rightarrow> (case cs of [] \<Rightarrow> raise IndexError | c # _ \<Rightarrow> return (VStr [c]))
     | _ \<Rightarrow> raise TypeError)"

text \<open>\<^verbatim>\<open>"{}: {:.4f}".format(*e)\<close> for a pair \<open>e\<close> of a word and a number.\<close>

definition format_pair ::
  "('w, 'e, 'o, 'r) gensim \<Rightarrow> ('w, 'e, 'o, 'r, ('o, 'r) pyval) prog \<Rightarrow> ('w, 'e, 'o, 'r, string) prog" where
  "format_pair lib e = bind e (\<lambda>v. case v of
       VPair w x \<Rightarrow> return (w @ '': '' @ float_format lib 4 x)
     | _ \<Rightarrow> raise TypeError)"

text \<open>\<^verbatim>\<open>"{:.nf}".format(e)\<close> for a number \<open>e\<close>.\<close>

definition format_float ::
  "('w, 'e, 'o, 'r) gensim \<Rightarrow> nat \<Rightarrow> ('w, 'e, 'o, 'r, ('o, 'r) pyval) prog \<Rightarrow> ('w, 'e, 'o, 'r, string) prog" where
  "format_float lib n e = bind e (\<lambda>v. case v of
       VFloat x \<Rightarrow> return (float_format lib n x)
     | _ \<Rightarrow> raise TypeError)"

text \<open>The text \<^verbatim>\<open>print\<close> writes for a value that is a string.\<close>

definition str_value ::
  "('w, 'e, 'o, 'r, ('o, 'r) pyval) prog \<Rightarrow> ('w, 'e, 'o, 'r, string) prog" where
  "str_value e = bind e (\<lambda>v. case v of VStr t \<Rightarrow> return t | _ \<Rightarrow> raise TypeError)"

text \<open>\<^verbatim>\<open>e > m * 10^k\<close> for a number \<open>e\<close>.\<close>

definition float_gt ::
  "('w, 'e, 'o, 'r) gensim \<Rightarrow> ('w, 'e, 'o, 'r, ('o, 'r) pyval) prog \<Rightarrow> int \<Rightarrow> int \<Rightarrow>
   ('w, 'e, 'o, 'r, ('o, 'r) pyval) prog" where
  "float_gt lib e m k = bind e (\<lambda>v. case v of
       VFloat x \<Rightarrow> return (VBool (float_less lib (float_lit lib m k) x))
     | _ \<Rightarrow> raise TypeError)"


subsection \<open>Imports and calls into the library\<close>

text \<open>
  The names the scripts import with \<^verbatim>\<open>from ... import ...\<close>, and the objects they
  stand for.
\<close>

definition member :: "('w, 'e, 'o, 'r) gensim \<Rightarrow> string \<Rightarrow> string \<Rightarrow> ('o, 'r) pyval option" where
  "member lib m x =
     (if m = ''gensim.test.utils'' \<and> x = ''datapath'' then Some (VFunction Datapath)
      else if m = ''gensim.test.utils'' \<and> x = ''common_texts'' then Some (VCorpus (common_texts lib))
      else if m = ''gensim.models'' \<and> x = ''Word2Vec'' then Some (VFunction Word2Vec_init)
      else None)"

text \<open>\<^verbatim>\<open>import m as x\<close>\<close>

definition import_as ::
  "('w, 'e, 'o, 'r) gensim \<Rightarrow> string \<Rightarrow> string \<Rightarrow> ('w, 'e, 'o, 'r, unit) prog" where
  "import_as lib m x = assign x (invoke Import [VStr m] [] (\<lambda>_. VModule m) (import_module lib m))"

text \<open>\<^verbatim>\<open>from m import x\<close>\<close>

definition from_import ::
  "('w, 'e, 'o, 'r) gensim \<Rightarrow> string \<Rightarrow> string \<Rightarrow> ('w, 'e, 'o, 'r, unit) prog" where
  "from_import lib m x =
     assign x (bind (invoke Import [VStr m] [] (\<lambda>_. VModule m) (import_module lib m))
       (\<lambda>_. case member lib m x of None \<Rightarrow> raise (ImportError x) | Some v \<Rightarrow> return v))"

text \<open>
  Each combinator below is one call form of the scripts. Python evaluates the callee
  (the receiver and its attribute) first, then the arguments, then calls.
\<close>

definition call_api_load ::
  "('w, 'e, 'o, 'r) gensim \<Rightarrow> ('w, 'e, 'o, 'r, ('o, 'r) pyval) prog \<Rightarrow> string \<Rightarrow>
   ('w, 'e, 'o, 'r, ('o, 'r) pyval) prog" where
  "call_api_load lib tgt nm = bind tgt (\<lambda>m.
     if m = VModule ''gensim.downloader''
     then invoke Api_load [VStr nm] [] VObj (api_load lib nm)
     else raise (AttributeError ''load''))"

definition call_Word2Vec ::
  "('w, 'e, 'o, 'r) gensim \<Rightarrow> ('w, 'e, 'o, 'r, ('o, 'r) pyval) prog \<Rightarrow>
   ('w, 'e, 'o, 'r, ('o, 'r) pyval) prog \<Rightarrow> (string \<times> int) list \<Rightarrow>
   ('w, 'e, 'o, 'r, ('o, 'r) pyval) prog" where
  "call_Word2Vec lib callee corpus kwargs = bind callee (\<lambda>f.
     if f = VFunction Word2Vec_init
     then bind corpus (\<lambda>c. case c of
            VCorpus texts \<Rightarrow>
              invoke Word2Vec_init [c] (map (\<lambda>(k, n). (k, VInt n)) kwargs) VObj
                (Word2Vec lib texts kwargs)
          | _ \<Rightarrow> raise TypeError)
     else raise TypeError)"

definition attr_wv ::
  "('w, 'e, 'o, 'r) gensim \<Rightarrow> ('w, 'e, 'o, 'r, ('o, 'r) pyval) prog \<Rightarrow>
   ('w, 'e, 'o, 'r, ('o, 'r) pyval) prog" where
  "attr_wv lib tgt = bind tgt (\<lambda>v. bind (obj_of ''wv'' v) (\<lambda>x.
     invoke Wv [v] [] VObj (wv lib x)))"

definition call_most_similar ::
  "('w, 'e, 'o, 'r) gensim \<Rightarrow> ('w, 'e, 'o, 'r, ('o, 'r) pyval) prog \<Rightarrow> string list \<Rightarrow> string list \<Rightarrow>
   ('w, 'e, 'o, 'r, ('o, 'r) pyval) prog" where
  "call_most_similar lib tgt pos neg = bind tgt (\<lambda>v. bind (obj_of ''most_similar'' v) (\<lambda>x.
     invoke Most_similar [v] [(''positive'', VStrs pos), (''negative'', VStrs neg)] VPairs
       (most_similar lib x pos neg)))"

definition call_most_similar_cosmul ::
  "('w, 'e, 'o, 'r) gensim \<Rightarrow> ('w, 'e, 'o, 'r, ('o, 'r) pyval) prog \<Rightarrow> string list \<Rightarrow> string list \<Rightarrow>
   ('w, 'e, 'o, 'r, ('o, 'r) pyval) prog" where
  "call_most_similar_cosmul lib tgt pos neg =
     bind tgt (\<lambda>v. bind (obj_of ''most_similar_cosmul'' v) (\<lambda>x.
       invoke Most_similar_cosmul [v] [(''positive'', VStrs pos), (''negative'', VStrs neg)] VPairs
         (most_similar_cosmul lib x pos neg)))"

definition call_doesnt_match ::
  "('w, 'e, 'o, 'r) gensim \<Rightarrow> ('w, 'e, 'o, 'r, ('o, 'r) pyval) prog \<Rightarrow> string list \<Rightarrow>
   ('w, 'e, 'o, 'r, ('o, 'r) pyval) prog" where
  "call_doesnt_match lib tgt ws = bind tgt (\<lambda>v. bind (obj_of ''doesnt_match'' v) (\<lambda>x.
     invoke Doesnt_match [v, VStrs ws] [] VStr (doesnt_match lib x ws)))"

definition call_similarity ::
  "('w, 'e, 'o, 'r) gensim \<Rightarrow> ('w, 'e, 'o, 'r, ('o, 'r) pyval) prog \<Rightarrow> string \<Rightarrow> string \<Rightarrow>
   ('w, 'e, 'o, 'r, ('o, 'r) pyval) prog" where
  "call_similarity lib tgt a b = bind tgt (\<lambda>v. bind (obj_of ''similarity'' v) (\<lambda>x.
     invoke Similarity [v, VStr a, VStr b] [] VFloat (similarity lib x a b)))"

definition call_similar_by_word ::
  "('w, 'e, 'o, 'r) gensim \<Rightarrow> ('w, 'e, 'o, 'r, ('o, 'r) pyval) prog \<Rightarrow> string \<Rightarrow>
   ('w, 'e, 'o, 'r, ('o, 'r) pyval) prog" where
  "call_similar_by_word lib tgt w = bind tgt (\<lambda>v. bind (obj_of ''similar_by_word'' v) (\<lambda>x.
     invoke Similar_by_word [v, VStr w] [] VPairs (similar_by_word lib x w)))"

definition call_wmdistance ::
  "('w, 'e, 'o, 'r) gensim \<Rightarrow> ('w, 'e, 'o, 'r, ('o, 'r) pyval) prog \<Rightarrow>
   ('w, 'e, 'o, 'r, ('o, 'r) pyval) prog \<Rightarrow> ('w, 'e, 'o, 'r, ('o, 'r) pyval) prog \<Rightarrow>
   ('w, 'e, 'o, 'r, ('o, 'r) pyval) prog" where
  "call_wmdistance lib tgt d1 d2 = bind tgt (\<lambda>v. bind (obj_of ''wmdistance'' v) (\<lambda>x.
     bind d1 (\<lambda>a. bind d2 (\<lambda>b. bind (strs_of a) (\<lambda>s1. bind (strs_of b) (\<lambda>s2.
       invoke Wmdistance [v, a, b] [] VFloat (wmdistance lib x s1 s2)))))))"

definition call_distance ::
  "('w, 'e, 'o, 'r) gensim \<Rightarrow> ('w, 'e, 'o, 'r, ('o, 'r) pyval) prog \<Rightarrow> string \<Rightarrow> string \<Rightarrow>
   ('w, 'e, 'o, 'r, ('o, 'r) pyval) prog" where
  "call_distance lib tgt a b = bind tgt (\<lambda>v. bind (obj_of ''distance'' v) (\<lambda>x.
     invoke Distance [v, VStr a, VStr b] [] VFloat (distance lib x a b)))"

definition call_n_similarity ::
  "('w, 'e, 'o, 'r) gensim \<Rightarrow> ('w, 'e, 'o, 'r, ('o, 'r) pyval) prog \<Rightarrow> string list \<Rightarrow> string list \<Rightarrow>
   ('w, 'e, 'o, 'r, ('o, 'r) pyval) prog" where
  "call_n_similarity lib tgt ws1 ws2 = bind tgt (\<lambda>v. bind (obj_of ''n_similarity'' v) (\<lambda>x.
     invoke N_similarity [v, VStrs ws1, VStrs ws2] [] VFloat (n_similarity lib x ws1 ws2)))"

text \<open>\<^verbatim>\<open>tgt[key]\<close>\<close>

definition call_getitem ::
  "('w, 'e, 'o, 'r) gensim \<Rightarrow> ('w, 'e, 'o, 'r, ('o, 'r) pyval) prog \<Rightarrow> string \<Rightarrow>
   ('w, 'e, 'o, 'r, ('o, 'r) pyval) prog" where
  "call_getitem lib tgt k = bind tgt (\<lambda>v. bind (obj_of ''__getitem__'' v) (\<lambda>x.
     invoke Getitem [v, VStr k] [] VObj (getitem lib x k)))"

definition call_word_vec ::
  "('w, 'e, 'o, 'r) gensim \<Rightarrow> ('w, 'e, 'o, 'r, ('o, 'r) pyval) prog \<Rightarrow> string \<Rightarrow> bool \<Rightarrow>
   ('w, 'e, 'o, 'r, ('o, 'r) pyval) prog" where
  "call_word_vec lib tgt w un = bind tgt (\<lambda>v. bind (obj_of ''word_vec'' v) (\<lambda>x.
     invoke Word_vec [v, VStr w] [(''use_norm'', VBool un)] VObj (word_vec lib x w un)))"

definition attr_shape ::
  "('w, 'e, 'o, 'r) gensim \<Rightarrow> ('w, 'e, 'o, 'r, ('o, 'r) pyval) prog \<Rightarrow>
   ('w, 'e, 'o, 'r, ('o, 'r) pyval) prog" where
  "attr_shape lib tgt = bind tgt (\<lambda>v. bind (obj_of ''shape'' v) (\<lambda>x.
     invoke Shape [v] [] VShape (shape lib x)))"

definition call_datapath ::
  "('w, 'e, 'o, 'r) gensim \<Rightarrow> ('w, 'e, 'o, 'r, ('o, 'r) pyval) prog \<Rightarrow> string \<Rightarrow>
   ('w, 'e, 'o, 'r, ('o, 'r) pyval) prog" where
  "call_datapath lib callee fname = bind callee (\<lambda>f.
     if f = VFunction Datapath
     then invoke Datapath [VStr fname] [] VStr (datapath lib fname)
     else raise TypeError)"

definition call_evaluate_word_pairs ::
  "('w, 'e, 'o, 'r) gensim \<Rightarrow> ('w, 'e, 'o, 'r, ('o, 'r) pyval) prog \<Rightarrow>
   ('w, 'e, 'o, 'r, ('o, 'r) pyval) prog \<Rightarrow> ('w, 'e, 'o, 'r, ('o, 'r) pyval) prog" where
  "call_evaluate_word_pairs lib tgt arg =
     bind tgt (\<lambda>v. bind (obj_of ''evaluate_word_pairs'' v) (\<lambda>x.
       bind arg (\<lambda>p. case p of
           VStr path \<Rightarrow> invoke Evaluate_word_pairs [v, p] [] VObj (evaluate_word_pairs lib x path)
         | _ \<Rightarrow> raise TypeError)))"

definition call_evaluate_word_analogies ::
  "('w, 'e, 'o, 'r) gensim \<Rightarrow> ('w, 'e, 'o, 'r, ('o, 'r) pyval) prog \<Rightarrow>
   ('w, 'e, 'o, 'r, ('o, 'r) pyval) prog \<Rightarrow> ('w, 'e, 'o, 'r, ('o, 'r) pyval) prog" where
  "call_evaluate_word_analogies lib tgt arg =
     bind tgt (\<lambda>v. bind (obj_of ''evaluate_word_analogies'' v) (\<lambda>x.
       bind arg (\<lambda>p. case p of
           VStr path \<Rightarrow>
             invoke Evaluate_word_analogies [v, p] [] VObj (evaluate_word_analogies lib x path)
         | _ \<Rightarrow> raise TypeError)))"

section \<open>The scripts\<close>

subsection \<open>\<^verbatim>\<open>gs_similarity.py\<close>\<close>

text \<open>Lines 2 and 4: the import and the single load call.\<close>

definition gs_similarity_load ::
  "('w, 'e, 'o, 'r) gensim \<Rightarrow> ('w, 'e, 'o, 'r, unit) prog list" where
  "gs_similarity_load lib =
    [import_as lib ''gensim.downloader'' ''api'',
     assign ''word_vectors'' (call_api_load lib (name ''api'') ''glove-wiki-gigaword-100'')]"

text \<open>Lines 6 to 46: the queries, with the prints between them.\<close>

definition gs_similarity_queries ::
  "('w, 'e, 'o, 'r) gensim \<Rightarrow> ('w, 'e, 'o, 'r, unit) prog list" where
  "gs_similarity_queries lib =
    [assign ''result''
       (call_most_similar lib (name ''word_vectors'') [''woman'', ''king''] [''man'']),
     print_stmt (format_pair lib (index0 (name ''result''))),
     assign ''result''
       (call_most_similar_cosmul lib (name ''word_vectors'') [''woman'', ''king''] [''man'']),
     print_stmt (format_pair lib (index0 (name ''result''))),
     print_stmt (str_value
       (call_doesnt_match lib (name ''word_vectors'') (py_split ''breakfast cereal dinner lunch''))),
     assign ''similarity'' (call_similarity lib (name ''word_vectors'') ''woman'' ''man''),
     expr_stmt (float_gt lib (name ''similarity'') 8 (- 1)),
     assign ''result'' (call_similar_by_word lib (name ''word_vectors'') ''cat''),
     print_stmt (format_pair lib (index0 (name ''result''))),
     assign ''sentence_obama''
       (return (VStrs (py_split (py_lower ''Obama speaks to the media in Illinois'')))),
     assign ''sentence_president''
       (return (VStrs (py_split (py_lower ''The president greets the press in Chicago'')))),
     assign ''similarity''
       (call_wmdistance lib (name ''word_vectors'') (name ''sentence_obama'')
          (name ''sentence_president'')),
     print_stmt (format_float lib 4 (name ''similarity'')),
     assign ''distance'' (call_distance lib (name ''word_vectors'') ''media'' ''media''),
     print_stmt (format_float lib 1 (name ''distance'')),
     assign ''sim''
       (call_n_similarity lib (name ''word_vectors'') [''sushi'', ''shop'']
          [''japanese'', ''restaurant'']),
     print_stmt (format_float lib 4 (name ''sim'')),
     assign ''vector'' (call_getitem lib (name ''word_vectors'') ''computer''),
     expr_stmt (attr_shape lib (name ''vector'')),
     assign ''vector''
       (call_word_vec lib (attr_wv lib (name ''word_vectors'')) ''office'' True),
     expr_stmt (attr_shape lib (name ''vector''))]"

text \<open>Lines 50 to 56: the import of \<^verbatim>\<open>datapath\<close> and the two evaluation statements.\<close>

definition gs_similarity_evaluation ::
  "('w, 'e, 'o, 'r) gensim \<Rightarrow> ('w, 'e, 'o, 'r, unit) prog list" where
  "gs_similarity_evaluation lib =
    [from_import lib ''gensim.test.utils'' ''datapath'',
     assign ''similarities''
       (call_evaluate_word_pairs lib (attr_wv lib (name ''model''))
          (call_datapath lib (name ''datapath'') ''wordsim353.tsv'')),
     assign ''analogy_scores''
       (call_evaluate_word_analogies lib (attr_wv lib (name ''model''))
          (call_datapath lib (name ''datapath'') ''questions-words.txt''))]"

definition gs_similarity ::
  "('w, 'e, 'o, 'r) gensim \<Rightarrow> ('w, 'e, 'o, 'r, unit) prog list" where
  "gs_similarity lib =
     gs_similarity_load lib @ gs_similarity_queries lib @ gs_similarity_evaluation lib"

subsection \<open>\<^verbatim>\<open>gs_train_model.py\<close>\<close>

definition gs_train_model ::
  "('w, 'e, 'o, 'r) gensim \<Rightarrow> ('w, 'e, 'o, 'r, unit) prog list" where
  "gs_train_model lib =
    [from_import lib ''gensim.test.utils'' ''common_texts'',
     from_import lib ''gensim.models'' ''Word2Vec'',
     assign ''model''
       (call_Word2Vec lib (name ''Word2Vec'') (name ''common_texts'')
          [(''size'', 100), (''window'', 5), (''min_count'', 1), (''workers'', 4)]),
     assign ''word_vectors'' (attr_wv lib (name ''model''))]"

subsection \<open>\<^verbatim>\<open>gensim_exm.py\<close>\<close>



section \<open>A concrete library, for running the scripts\<close>

text \<open>
  A small stand-in for the external library, used as the concrete input of the examples
  below. Its world is the number of calls served so far and the table of the loaded
  vectors; objects are named by strings and numbers are decimal texts, which
  \<open>float_format\<close> cuts after the requested digits.
\<close>

type_synonym demo_world = "nat \<times> (string \<times> nat list) list"

definition served :: "'a \<Rightarrow> (demo_world, string, 'a) libop" where
  "served a w = (Inr a, (Suc (fst w), snd w))"

definition demo :: "(demo_world, string, string, string) gensim" where
  "demo =
    \<lparr> import_module = (\<lambda>m. served ()),
      common_texts = [[''human'', ''interface'', ''computer''], [''survey'', ''user'', ''computer'']],
      api_load = (\<lambda>nm w. (Inr ''kv'', (Suc (fst w), [(''king'', [1, 0]), (''queen'', [1, 1])]))),
      Word2Vec = (\<lambda>texts kwargs w. (Inr ''w2v'', (Suc (fst w), [(''human'', [0, 1])]))),
      wv = (\<lambda>x. served ''kv''),
      most_similar = (\<lambda>x pos neg. served [(''queen'', ''0.76990'')]),
      most_similar_cosmul = (\<lambda>x pos neg. served [(''queen'', ''0.89650'')]),
      doesnt_match = (\<lambda>x ws. served (ws ! 1)),
      similarity = (\<lambda>x a b. served ''0.83230''),
      similar_by_word = (\<lambda>x w. served [(''dog'', ''0.87980'')]),
      wmdistance = (\<lambda>x d1 d2. served ''3.48930''),
      distance = (\<lambda>x a b. served (if a = b then ''0.00000'' else ''1.00000'')),
      n_similarity = (\<lambda>x ws1 ws2. served ''0.70670''),
      getitem = (\<lambda>x k. served ''vec''),
      word_vec = (\<lambda>x w un. served ''vec''),
      shape = (\<lambda>x. served [100]),
      datapath = (\<lambda>f. served (''/data/'' @ f)),
      evaluate_word_pairs = (\<lambda>x p. served ''pairs''),
      evaluate_word_analogies = (\<lambda>x p. served ''analogies''),
      float_format = (\<lambda>n x. take (n + 2) x),
      float_lit = (\<lambda>m k. ''literal''),
      float_less = (\<lambda>a b. a \<noteq> b) \<rparr>"

text \<open>The same library without a network: the download of the model fails.\<close>

definition demo_offline :: "(demo_world, string, string, string) gensim" where
  "demo_offline = demo\<lparr> api_load := (\<lambda>nm w. (Inl ''ConnectionError'', w)) \<rparr>"


section \<open>Reading a trace\<close>

fun api_of :: "('e, 'o, 'r) event \<Rightarrow> api option" where
  "api_of (Call a args kwargs r) = Some a"
| "api_of (Print t) = None"

text \<open>The library entry points called, in order.\<close>

definition calls :: "('e, 'o, 'r) event list \<Rightarrow> api list" where
  "calls t = List.map_filter api_of t"

fun signature_of ::
  "('e, 'o, 'r) event \<Rightarrow> (api \<times> ('o, 'r) pyval list \<times> (string \<times> ('o, 'r) pyval) list) option" where
  "signature_of (Call a args kwargs r) = Some (a, args, kwargs)"
| "signature_of (Print t) = None"

text \<open>The calls with their positional and keyword arguments, without the outcome.\<close>

definition signatures ::
  "('e, 'o, 'r) event list \<Rightarrow> (api \<times> ('o, 'r) pyval list \<times> (string \<times> ('o, 'r) pyval) list) list" where
  "signatures t = List.map_filter signature_of t"

fun raised_of :: "('e, 'o, 'r) event \<Rightarrow> 'e option" where
  "raised_of (Call a args kwargs (Inl e)) = Some e"
| "raised_of (Call a args kwargs (Inr v)) = None"
| "raised_of (Print t) = None"

text \<open>The exceptions the library raised.\<close>

definition raised :: "('e, 'o, 'r) event list \<Rightarrow> 'e list" where
  "raised t = List.map_filter raised_of t"

fun printed_of :: "('e, 'o, 'r) event \<Rightarrow> string option" where
  "printed_of (Call a args kwargs r) = None"
| "printed_of (Print t) = Some t"

text \<open>The lines written to standard output.\<close>

definition stdout_lines :: "('e, 'o, 'r) event list \<Rightarrow> string list" where
  "stdout_lines t = List.map_filter printed_of t"



text \<open>
  \<open>emits c as\<close>: from any state, \<open>c\<close> calls the entry points \<open>as\<close> in this order and
  no other; a run that fails has called an initial part of them.
\<close>

definition emits :: "('w, 'e, 'o, 'r, 'a) prog \<Rightarrow> api list \<Rightarrow> bool" where
  "emits c as =
     (\<forall>s. \<exists>evs. trace (snd (c s)) = trace s @ evs \<and> prefix (calls evs) as \<and>
        (case fst (c s) of Inl x \<Rightarrow> True | Inr u \<Rightarrow> calls evs = as))"

text \<open>
  \<open>yields proj c xs\<close>: the same for any reading \<open>proj\<close> of the added events: a run of
  \<open>c\<close> that returns has added events that read as \<open>xs\<close>, a run that fails events
  that read as an initial part of \<open>xs\<close>.
\<close>

definition yields ::
  "(('e, 'o, 'r) event list \<Rightarrow> 'x list) \<Rightarrow> ('w, 'e, 'o, 'r, 'a) prog \<Rightarrow> 'x list \<Rightarrow> bool" where
  "yields proj c xs =
     (\<forall>s. \<exists>evs. trace (snd (c s)) = trace s @ evs \<and> prefix (proj evs) xs \<and>
        (case fst (c s) of Inl x \<Rightarrow> True | Inr u \<Rightarrow> proj evs = xs))"

subsection \<open>Order of the calls and printing of the results\<close>

text \<open>
  The entry points \<^verbatim>\<open>gs_similarity.py\<close> calls up to line 50 and those
  \<^verbatim>\<open>gs_train_model.py\<close> calls, in program order.
\<close>

definition gs_similarity_calls :: "api list" where
  "gs_similarity_calls =
     [Import, Api_load, Most_similar, Most_similar_cosmul, Doesnt_match, Similarity,
      Similar_by_word, Wmdistance, Distance, N_similarity, Getitem, Shape, Wv, Word_vec, Shape,
      Import]"







subsection \<open>File names passed to the library\<close>







subsection \<open>Assumptions on the library used by the frame and determinism results\<close>


text \<open>
  \<open>same_on obs f\<close>: the outcome of the entry point \<open>f\<close>, and what \<open>obs\<close> observes
  afterwards, depend on the world only through \<open>obs\<close>.
\<close>

definition same_on :: "('w \<Rightarrow> 'x) \<Rightarrow> ('w, 'e, 'a) libop \<Rightarrow> bool" where
  "same_on obs f =
     (\<forall>w1 w2. obs w1 = obs w2 \<longrightarrow>
        fst (f w1) = fst (f w2) \<and> obs (snd (f w1)) = obs (snd (f w2)))"

text \<open>
  \<open>pure_queries lib obs\<close>: every query method, and the attribute reads the query part of
  the script makes, is a function of what \<open>obs\<close> observes.
\<close>

definition pure_queries :: "('w, 'e, 'o, 'r) gensim \<Rightarrow> ('w \<Rightarrow> 'x) \<Rightarrow> bool" where
  "pure_queries lib obs =
     ((\<forall>x. same_on obs (wv lib x))
      \<and> (\<forall>x ps ns. same_on obs (most_similar lib x ps ns))
      \<and> (\<forall>x ps ns. same_on obs (most_similar_cosmul lib x ps ns))
      \<and> (\<forall>x ws. same_on obs (doesnt_match lib x ws))
      \<and> (\<forall>x a b. same_on obs (similarity lib x a b))
      \<and> (\<forall>x a. same_on obs (similar_by_word lib x a))
      \<and> (\<forall>x d1 d2. same_on obs (wmdistance lib x d1 d2))
      \<and> (\<forall>x a b. same_on obs (distance lib x a b))
      \<and> (\<forall>x ws1 ws2. same_on obs (n_similarity lib x ws1 ws2))
      \<and> (\<forall>x k. same_on obs (getitem lib x k))
      \<and> (\<forall>x k un. same_on obs (word_vec lib x k un))
      \<and> (\<forall>x. same_on obs (shape lib x)))"


text \<open>
  \<open>same_view obs s1 s2\<close>: the two interpreter states agree on what \<open>obs\<close> observes of
  the world, on the globals and on the trace so far. \<open>deterministic_on obs c\<close>: run from
  two such states, \<open>c\<close> gives the same outcome and leaves two such states again.
\<close>

definition same_view ::
  "('w \<Rightarrow> 'x) \<Rightarrow> ('w, 'e, 'o, 'r) pstate \<Rightarrow> ('w, 'e, 'o, 'r) pstate \<Rightarrow> bool" where
  "same_view obs s1 s2 =
     (obs (world s1) = obs (world s2) \<and> globals s1 = globals s2 \<and> trace s1 = trace s2)"

definition deterministic_on :: "('w \<Rightarrow> 'x) \<Rightarrow> ('w, 'e, 'o, 'r, 'a) prog \<Rightarrow> bool" where
  "deterministic_on obs c =
     (\<forall>s1 s2. same_view obs s1 s2 \<longrightarrow>
        fst (c s1) = fst (c s2) \<and> same_view obs (snd (c s1)) (snd (c s2)))"

section \<open>Running the scripts with the concrete library\<close>

lemmas interp_defs =
  import_as_def from_import_def assign_def bind_def invoke_def name_def
  return_def raise_def print_stmt_def expr_stmt_def
  call_api_load_def call_Word2Vec_def call_most_similar_def call_most_similar_cosmul_def
  call_doesnt_match_def call_similarity_def call_similar_by_word_def
  call_wmdistance_def call_distance_def call_n_similarity_def call_getitem_def call_word_vec_def
  attr_shape_def attr_wv_def call_datapath_def call_evaluate_word_pairs_def
  call_evaluate_word_analogies_def obj_of_def strs_of_def index0_def format_pair_def
  format_float_def str_value_def float_gt_def member_def

lemmas script_defs =
  gs_similarity_def gs_similarity_load_def gs_similarity_queries_def gs_similarity_evaluation_def
  gs_train_model_def run_script_def run_in_def

lemmas demo_defs = demo_def demo_offline_def served_def py_split_def py_lower_def lower_char_def is_space_def

lemma demo_run:
  "fst (run_script (gs_similarity demo) (0, [])) = Inl (NameError ''model'')"
  "trace (snd (run_script (gs_similarity demo) (0, []))) =
  [Call Import [VStr ''gensim.downloader''] [] (Inr (VModule ''gensim.downloader'')),
   Call Api_load [VStr ''glove-wiki-gigaword-100''] [] (Inr (VObj ''kv'')),
   Call Most_similar [VObj ''kv'']
    [(''positive'', VStrs [''woman'', ''king'']), (''negative'', VStrs [''man''])]
    (Inr (VPairs [(''queen'', ''0.76990'')])),
   Print ''queen: 0.7699'',
   Call Most_similar_cosmul [VObj ''kv'']
    [(''positive'', VStrs [''woman'', ''king'']), (''negative'', VStrs [''man''])]
    (Inr (VPairs [(''queen'', ''0.89650'')])),
   Print ''queen: 0.8965'',
   Call Doesnt_match
    [VObj ''kv'', VStrs [''breakfast'', ''cereal'', ''dinner'', ''lunch'']]
    [] (Inr (VStr ''cereal'')),
   Print ''cereal'',
   Call Similarity [VObj ''kv'', VStr ''woman'', VStr ''man''] [] (Inr (VFloat ''0.83230'')),
   Call Similar_by_word [VObj ''kv'', VStr ''cat''] [] (Inr (VPairs [(''dog'', ''0.87980'')])),
   Print ''dog: 0.8798'',
   Call Wmdistance
    [VObj ''kv'',
     VStrs [''obama'', ''speaks'', ''to'', ''the'', ''media'', ''in'', ''illinois''],
     VStrs [''the'', ''president'', ''greets'', ''the'', ''press'', ''in'', ''chicago'']]
    [] (Inr (VFloat ''3.48930'')),
   Print ''3.4893'',
   Call Distance [VObj ''kv'', VStr ''media'', VStr ''media''] [] (Inr (VFloat ''0.00000'')),
   Print ''0.0'',
   Call N_similarity
    [VObj ''kv'', VStrs [''sushi'', ''shop''], VStrs [''japanese'', ''restaurant'']]
    [] (Inr (VFloat ''0.70670'')),
   Print ''0.7067'',
   Call Getitem [VObj ''kv'', VStr ''computer''] [] (Inr (VObj ''vec'')),
   Call Shape [VObj ''vec''] [] (Inr (VShape [100])),
   Call Wv [VObj ''kv''] [] (Inr (VObj ''kv'')),
   Call Word_vec [VObj ''kv'', VStr ''office''] [(''use_norm'', VBool True)] (Inr (VObj ''vec'')),
   Call Shape [VObj ''vec''] [] (Inr (VShape [100])),
   Call Import [VStr ''gensim.test.utils''] [] (Inr (VModule ''gensim.test.utils''))]"
  by (simp_all add: script_defs interp_defs demo_defs)


lemma offline_run:
  "fst (run_script (gs_similarity demo_offline) (0, [])) = Inl (Raised ''ConnectionError'')"
  by (simp add: script_defs interp_defs demo_defs)

lemma map_filter_Cons_Some: "f x = Some y \<Longrightarrow> List.map_filter f (x # xs) = y # List.map_filter f xs"
  by (simp add: List.map_filter_simps)

lemma map_filter_Cons_None: "f x = None \<Longrightarrow> List.map_filter f (x # xs) = List.map_filter f xs"
  by (simp add: List.map_filter_simps)

lemma calls_simps [simp]:
  "calls [] = []"
  "calls (Call a args kwargs r # t) = a # calls t"
  "calls (Print x # t) = calls t"
  by (simp_all add: calls_def List.map_filter_simps)

lemma calls_append [simp]: "calls (t @ u) = calls t @ calls u"
  by (simp add: calls_def List.map_filter_def)

lemma raised_simps [simp]:
  "raised [] = []"
  "raised (Call a args kwargs (Inl e) # t) = e # raised t"
  "raised (Call a args kwargs (Inr v) # t) = raised t"
  "raised (Print x # t) = raised t"
  by (simp_all add: raised_def List.map_filter_simps)

lemma stdout_lines_simps [simp]:
  "stdout_lines [] = []"
  "stdout_lines (Call a args kwargs r # t) = stdout_lines t"
  "stdout_lines (Print x # t) = x # stdout_lines t"
  by (simp_all add: stdout_lines_def List.map_filter_simps)

lemma signatures_simps [simp]:
  "signatures [] = []"
  "signatures (Call a args kwargs r # t) = (a, args, kwargs) # signatures t"
  "signatures (Print x # t) = signatures t"
  by (simp_all add: signatures_def List.map_filter_simps)

section \<open>Failures that start in the script itself\<close>

text \<open>
  C1 (the part the code breaks). The claim says that every failure of a run starts in
  the external library. With the concrete library every library call of
  \<^verbatim>\<open>gs_similarity.py\<close> returns normally (no call in the trace raised), and the run
  still ends in a failure: the \<^verbatim>\<open>NameError\<close> for the name \<^verbatim>\<open>model\<close> that line 52
  reads and no statement of the script binds.
\<close>

theorem gs_similarity_fails_without_library_failure:
  "fst (run_script (gs_similarity demo) (0, [])) = Inl (NameError ''model'')
   \<and> raised (trace (snd (run_script (gs_similarity demo) (0, [])))) = []"
  by (simp add: demo_run)


section \<open>Statements in sequence, and what each statement form does\<close>

lemma run_stmts_append:
  "run_stmts (xs @ ys) s =
     (case run_stmts xs s of (Inl x, s') \<Rightarrow> (Inl x, s') | (Inr u, s') \<Rightarrow> run_stmts ys s')"
  by (induction xs arbitrary: s) (auto split: prod.splits sum.splits)

lemma run_stmts_keeps:
  assumes "\<And>c s. c \<in> set cs \<Longrightarrow> P s \<Longrightarrow> P (snd (c s))" and "P s"
  shows "P (snd (run_stmts cs s))"
  using assms
proof (induction cs arbitrary: s)
  case Nil
  then show ?case by simp
next
  case (Cons c cs)
  have step: "P (snd (c s))" using Cons.prems by simp
  show ?case
  proof (cases "c s")
    case (Pair r s')
    with step have "P s'" by simp
    then show ?thesis using Pair Cons by (cases r) auto
  qed
qed

lemma emits_run_stmts:
  "list_all2 emits cs ass \<Longrightarrow> emits (run_stmts cs) (concat ass)"
proof (induction rule: list_all2_induct)
  case Nil
  then show ?case by (simp add: emits_def)
next
  case (Cons c cs as ass)
  show ?case
    unfolding emits_def
  proof
    fix s
    obtain p where p: "trace (snd (c s)) = trace s @ p" "prefix (calls p) as"
      "case fst (c s) of Inl x \<Rightarrow> True | Inr u \<Rightarrow> calls p = as"
      using Cons.hyps(1) unfolding emits_def by blast
    show "\<exists>evs. trace (snd (run_stmts (c # cs) s)) = trace s @ evs \<and>
        prefix (calls evs) (concat (as # ass)) \<and>
        (case fst (run_stmts (c # cs) s) of Inl x \<Rightarrow> True | Inr u \<Rightarrow> calls evs = concat (as # ass))"
    proof (cases "c s")
      case (Pair r s')
      show ?thesis
      proof (cases r)
        case (Inl x)
        with Pair p show ?thesis by (auto intro!: exI[of _ p] simp: prefix_def)
      next
        case (Inr u)
        obtain q where q: "trace (snd (run_stmts cs s')) = trace s' @ q" "prefix (calls q) (concat ass)"
          "case fst (run_stmts cs s') of Inl x \<Rightarrow> True | Inr u \<Rightarrow> calls q = concat ass"
          using Cons.IH unfolding emits_def by blast
        from Pair Inr p have pa: "calls p = as" "trace s' = trace s @ p" by auto
        show ?thesis
          using Pair Inr q pa by (intro exI[of _ "p @ q"]) (auto split: sum.splits)
      qed
    qed
  qed
qed

lemma emits_import_as:
  "emits (import_as lib m x) [Import]"
  by (auto simp add: emits_def interp_defs
      split: prod.splits sum.splits option.splits pyval.splits list.splits)

lemma emits_from_import:
  "emits (from_import lib m x) [Import]"
  by (auto simp add: emits_def interp_defs
      split: prod.splits sum.splits option.splits pyval.splits list.splits)

lemma emits_api_load:
  "emits (assign x (call_api_load lib (name y) nm)) [Api_load]"
  by (auto simp add: emits_def interp_defs
      split: prod.splits sum.splits option.splits pyval.splits list.splits)

lemma emits_most_similar:
  "emits (assign x (call_most_similar lib (name y) ps ns)) [Most_similar]"
  by (auto simp add: emits_def interp_defs
      split: prod.splits sum.splits option.splits pyval.splits list.splits)

lemma emits_most_similar_cosmul:
  "emits (assign x (call_most_similar_cosmul lib (name y) ps ns)) [Most_similar_cosmul]"
  by (auto simp add: emits_def interp_defs
      split: prod.splits sum.splits option.splits pyval.splits list.splits)

lemma emits_print_pair:
  "emits (print_stmt (format_pair lib (index0 (name x)))) []"
  by (auto simp add: emits_def interp_defs
      split: prod.splits sum.splits option.splits pyval.splits list.splits)

lemma emits_doesnt_match:
  "emits (print_stmt (str_value (call_doesnt_match lib (name y) ws))) [Doesnt_match]"
  by (auto simp add: emits_def interp_defs
      split: prod.splits sum.splits option.splits pyval.splits list.splits)

lemma emits_similarity:
  "emits (assign x (call_similarity lib (name y) a b)) [Similarity]"
  by (auto simp add: emits_def interp_defs
      split: prod.splits sum.splits option.splits pyval.splits list.splits)

lemma emits_float_gt:
  "emits (expr_stmt (float_gt lib (name x) m k)) []"
  by (auto simp add: emits_def interp_defs
      split: prod.splits sum.splits option.splits pyval.splits list.splits)

lemma emits_similar_by_word:
  "emits (assign x (call_similar_by_word lib (name y) a)) [Similar_by_word]"
  by (auto simp add: emits_def interp_defs
      split: prod.splits sum.splits option.splits pyval.splits list.splits)

lemma emits_literal:
  "emits (assign x (return v)) []"
  by (auto simp add: emits_def interp_defs
      split: prod.splits sum.splits option.splits pyval.splits list.splits)

lemma emits_wmdistance:
  "emits (assign x (call_wmdistance lib (name y) (name a) (name b))) [Wmdistance]"
  by (auto simp add: emits_def interp_defs
      split: prod.splits sum.splits option.splits pyval.splits list.splits)

lemma emits_print_float:
  "emits (print_stmt (format_float lib n (name x))) []"
  by (auto simp add: emits_def interp_defs
      split: prod.splits sum.splits option.splits pyval.splits list.splits)

lemma emits_distance:
  "emits (assign x (call_distance lib (name y) a b)) [Distance]"
  by (auto simp add: emits_def interp_defs
      split: prod.splits sum.splits option.splits pyval.splits list.splits)

lemma emits_n_similarity:
  "emits (assign x (call_n_similarity lib (name y) ws1 ws2)) [N_similarity]"
  by (auto simp add: emits_def interp_defs
      split: prod.splits sum.splits option.splits pyval.splits list.splits)

lemma emits_getitem:
  "emits (assign x (call_getitem lib (name y) k)) [Getitem]"
  by (auto simp add: emits_def interp_defs
      split: prod.splits sum.splits option.splits pyval.splits list.splits)

lemma emits_shape:
  "emits (expr_stmt (attr_shape lib (name x))) [Shape]"
  by (auto simp add: emits_def interp_defs
      split: prod.splits sum.splits option.splits pyval.splits list.splits)

lemma emits_word_vec:
  "emits (assign x (call_word_vec lib (attr_wv lib (name y)) k un)) [Wv, Word_vec]"
  by (auto simp add: emits_def interp_defs
      split: prod.splits sum.splits option.splits pyval.splits list.splits)

lemma emits_evaluate_word_pairs:
  "emits (assign x (call_evaluate_word_pairs lib (attr_wv lib (name y)) (call_datapath lib (name z) f))) [Wv, Datapath, Evaluate_word_pairs]"
  by (auto simp add: emits_def interp_defs
      split: prod.splits sum.splits option.splits pyval.splits list.splits)

lemma emits_evaluate_word_analogies:
  "emits (assign x (call_evaluate_word_analogies lib (attr_wv lib (name y)) (call_datapath lib (name z) f))) [Wv, Datapath, Evaluate_word_analogies]"
  by (auto simp add: emits_def interp_defs
      split: prod.splits sum.splits option.splits pyval.splits list.splits)

lemma emits_Word2Vec:
  "emits (assign x (call_Word2Vec lib (name a) (name b) kw)) [Word2Vec_init]"
  by (auto simp add: emits_def interp_defs
      split: prod.splits sum.splits option.splits pyval.splits list.splits)

lemma emits_wv:
  "emits (assign x (attr_wv lib (name y))) [Wv]"
  by (auto simp add: emits_def interp_defs
      split: prod.splits sum.splits option.splits pyval.splits list.splits)


lemma emits_gs_similarity_load: "emits (run_stmts (gs_similarity_load lib)) [Import, Api_load]"
  using emits_run_stmts [of "gs_similarity_load lib" "[[Import], [Api_load]]"]
  by (simp add: gs_similarity_load_def emits_import_as emits_api_load)

lemma emits_gs_similarity_queries:
  "emits (run_stmts (gs_similarity_queries lib))
     [Most_similar, Most_similar_cosmul, Doesnt_match, Similarity, Similar_by_word, Wmdistance,
      Distance, N_similarity, Getitem, Shape, Wv, Word_vec, Shape]"
  using emits_run_stmts [of "gs_similarity_queries lib"
    "[[Most_similar], [], [Most_similar_cosmul], [], [Doesnt_match], [Similarity], [],
      [Similar_by_word], [], [], [], [Wmdistance], [], [Distance], [], [N_similarity], [],
      [Getitem], [Shape], [Wv, Word_vec], [Shape]]"]
  by (simp add: gs_similarity_queries_def emits_most_similar emits_most_similar_cosmul
      emits_print_pair emits_doesnt_match emits_similarity emits_float_gt emits_similar_by_word
      emits_literal emits_wmdistance emits_print_float emits_distance emits_n_similarity
      emits_getitem emits_shape emits_word_vec)


lemma run_stmts_keeps_all:
  "list_all (\<lambda>c. \<forall>s. P s \<longrightarrow> P (snd (c s))) cs \<Longrightarrow> P s \<Longrightarrow> P (snd (run_stmts cs s))"
  by (rule run_stmts_keeps [where P = P]) (auto simp: list_all_iff)

lemma globals_import_as:
  "z0 \<noteq> x \<Longrightarrow> globals (snd ((import_as lib m x) s)) z0 = globals s z0"
  by (auto simp add: interp_defs
      split: prod.splits sum.splits option.splits pyval.splits list.splits)

lemma globals_from_import:
  "z0 \<noteq> x \<Longrightarrow> globals (snd ((from_import lib m x) s)) z0 = globals s z0"
  by (auto simp add: interp_defs
      split: prod.splits sum.splits option.splits pyval.splits list.splits)

lemma globals_api_load:
  "z0 \<noteq> x \<Longrightarrow> globals (snd ((assign x (call_api_load lib (name y) nm)) s)) z0 = globals s z0"
  by (auto simp add: interp_defs
      split: prod.splits sum.splits option.splits pyval.splits list.splits)

lemma globals_most_similar:
  "z0 \<noteq> x \<Longrightarrow> globals (snd ((assign x (call_most_similar lib (name y) ps ns)) s)) z0 = globals s z0"
  by (auto simp add: interp_defs
      split: prod.splits sum.splits option.splits pyval.splits list.splits)

lemma globals_most_similar_cosmul:
  "z0 \<noteq> x \<Longrightarrow> globals (snd ((assign x (call_most_similar_cosmul lib (name y) ps ns)) s)) z0 = globals s z0"
  by (auto simp add: interp_defs
      split: prod.splits sum.splits option.splits pyval.splits list.splits)

lemma globals_print_pair:
  "globals (snd ((print_stmt (format_pair lib (index0 (name x)))) s)) = globals s"
  by (auto simp add: interp_defs
      split: prod.splits sum.splits option.splits pyval.splits list.splits)

lemma globals_doesnt_match:
  "globals (snd ((print_stmt (str_value (call_doesnt_match lib (name y) ws))) s)) = globals s"
  by (auto simp add: interp_defs
      split: prod.splits sum.splits option.splits pyval.splits list.splits)

lemma globals_similarity:
  "z0 \<noteq> x \<Longrightarrow> globals (snd ((assign x (call_similarity lib (name y) a b)) s)) z0 = globals s z0"
  by (auto simp add: interp_defs
      split: prod.splits sum.splits option.splits pyval.splits list.splits)

lemma globals_float_gt:
  "globals (snd ((expr_stmt (float_gt lib (name x) m k)) s)) = globals s"
  by (auto simp add: interp_defs
      split: prod.splits sum.splits option.splits pyval.splits list.splits)

lemma globals_similar_by_word:
  "z0 \<noteq> x \<Longrightarrow> globals (snd ((assign x (call_similar_by_word lib (name y) a)) s)) z0 = globals s z0"
  by (auto simp add: interp_defs
      split: prod.splits sum.splits option.splits pyval.splits list.splits)

lemma globals_literal:
  "z0 \<noteq> x \<Longrightarrow> globals (snd ((assign x (return v)) s)) z0 = globals s z0"
  by (auto simp add: interp_defs
      split: prod.splits sum.splits option.splits pyval.splits list.splits)

lemma globals_wmdistance:
  "z0 \<noteq> x \<Longrightarrow> globals (snd ((assign x (call_wmdistance lib (name y) (name a) (name b))) s)) z0 = globals s z0"
  by (auto simp add: interp_defs
      split: prod.splits sum.splits option.splits pyval.splits list.splits)

lemma globals_print_float:
  "globals (snd ((print_stmt (format_float lib n (name x))) s)) = globals s"
  by (auto simp add: interp_defs
      split: prod.splits sum.splits option.splits pyval.splits list.splits)

lemma globals_distance:
  "z0 \<noteq> x \<Longrightarrow> globals (snd ((assign x (call_distance lib (name y) a b)) s)) z0 = globals s z0"
  by (auto simp add: interp_defs
      split: prod.splits sum.splits option.splits pyval.splits list.splits)

lemma globals_n_similarity:
  "z0 \<noteq> x \<Longrightarrow> globals (snd ((assign x (call_n_similarity lib (name y) ws1 ws2)) s)) z0 = globals s z0"
  by (auto simp add: interp_defs
      split: prod.splits sum.splits option.splits pyval.splits list.splits)

lemma globals_getitem:
  "z0 \<noteq> x \<Longrightarrow> globals (snd ((assign x (call_getitem lib (name y) k)) s)) z0 = globals s z0"
  by (auto simp add: interp_defs
      split: prod.splits sum.splits option.splits pyval.splits list.splits)

lemma globals_shape:
  "globals (snd ((expr_stmt (attr_shape lib (name x))) s)) = globals s"
  by (auto simp add: interp_defs
      split: prod.splits sum.splits option.splits pyval.splits list.splits)

lemma globals_word_vec:
  "z0 \<noteq> x \<Longrightarrow> globals (snd ((assign x (call_word_vec lib (attr_wv lib (name y)) k un)) s)) z0 = globals s z0"
  by (auto simp add: interp_defs
      split: prod.splits sum.splits option.splits pyval.splits list.splits)

lemma globals_evaluate_word_pairs:
  "z0 \<noteq> x \<Longrightarrow> globals (snd ((assign x (call_evaluate_word_pairs lib (attr_wv lib (name y)) (call_datapath lib (name z) f))) s)) z0 = globals s z0"
  by (auto simp add: interp_defs
      split: prod.splits sum.splits option.splits pyval.splits list.splits)

lemma globals_evaluate_word_analogies:
  "z0 \<noteq> x \<Longrightarrow> globals (snd ((assign x (call_evaluate_word_analogies lib (attr_wv lib (name y)) (call_datapath lib (name z) f))) s)) z0 = globals s z0"
  by (auto simp add: interp_defs
      split: prod.splits sum.splits option.splits pyval.splits list.splits)

lemma globals_Word2Vec:
  "z0 \<noteq> x \<Longrightarrow> globals (snd ((assign x (call_Word2Vec lib (name a) (name b) kw)) s)) z0 = globals s z0"
  by (auto simp add: interp_defs
      split: prod.splits sum.splits option.splits pyval.splits list.splits)

lemma globals_wv:
  "z0 \<noteq> x \<Longrightarrow> globals (snd ((assign x (attr_wv lib (name y))) s)) z0 = globals s z0"
  by (auto simp add: interp_defs
      split: prod.splits sum.splits option.splits pyval.splits list.splits)

lemmas emits_stmt =
  emits_import_as emits_from_import emits_api_load emits_most_similar emits_most_similar_cosmul
  emits_print_pair emits_doesnt_match emits_similarity emits_float_gt emits_similar_by_word
  emits_literal emits_wmdistance emits_print_float emits_distance emits_n_similarity
  emits_getitem emits_shape emits_word_vec emits_evaluate_word_pairs
  emits_evaluate_word_analogies emits_Word2Vec emits_wv

lemmas globals_stmt =
  globals_import_as globals_from_import globals_api_load globals_most_similar
  globals_most_similar_cosmul globals_print_pair globals_doesnt_match globals_similarity
  globals_float_gt globals_similar_by_word globals_literal globals_wmdistance
  globals_print_float globals_distance globals_n_similarity globals_getitem globals_shape
  globals_word_vec globals_evaluate_word_pairs globals_evaluate_word_analogies
  globals_Word2Vec globals_wv


section \<open>The evaluation statements of \<^verbatim>\<open>gs_similarity.py\<close> are never reached\<close>

text \<open>
  The script has 26 statements; the first 24 are those of lines 2 to 50, the last two
  are the evaluation statements of lines 52 and 56.
\<close>

lemma gs_similarity_split:
  "gs_similarity lib = take 24 (gs_similarity lib) @ drop 24 (gs_similarity lib)"
  by simp

lemma gs_similarity_before_52:
  "take 24 (gs_similarity lib) =
     gs_similarity_load lib @ gs_similarity_queries lib
       @ [from_import lib ''gensim.test.utils'' ''datapath'']"
  by (simp add: gs_similarity_def gs_similarity_load_def gs_similarity_queries_def
      gs_similarity_evaluation_def)

lemma gs_similarity_from_52:
  "drop 24 (gs_similarity lib) =
     [assign ''similarities''
       (call_evaluate_word_pairs lib (attr_wv lib (name ''model''))
          (call_datapath lib (name ''datapath'') ''wordsim353.tsv'')),
      assign ''analogy_scores''
       (call_evaluate_word_analogies lib (attr_wv lib (name ''model''))
          (call_datapath lib (name ''datapath'') ''questions-words.txt''))]"
  by (simp add: gs_similarity_def gs_similarity_load_def gs_similarity_queries_def
      gs_similarity_evaluation_def)

lemma emits_before_52:
  "emits (run_stmts (take 24 (gs_similarity lib))) gs_similarity_calls"
  using emits_run_stmts [of "take 24 (gs_similarity lib)"
    "[[Import], [Api_load], [Most_similar], [], [Most_similar_cosmul], [], [Doesnt_match],
      [Similarity], [], [Similar_by_word], [], [], [], [Wmdistance], [], [Distance], [],
      [N_similarity], [], [Getitem], [Shape], [Wv, Word_vec], [Shape], [Import]]"]
  by (simp add: gs_similarity_before_52 gs_similarity_load_def gs_similarity_queries_def
      gs_similarity_calls_def emits_stmt)

lemma model_unbound_before_52:
  "globals s ''model'' = None \<Longrightarrow>
   globals (snd (run_stmts (take 24 (gs_similarity lib)) s)) ''model'' = None"
  by (rule run_stmts_keeps_all [where P = "\<lambda>s. globals s ''model'' = None"])
     (simp_all add: gs_similarity_before_52 gs_similarity_load_def gs_similarity_queries_def
        globals_stmt)

lemma from_52_unbound:
  "globals s ''model'' = None \<Longrightarrow>
   run_stmts (drop 24 (gs_similarity lib)) s = (Inl (NameError ''model''), s)"
  by (simp add: gs_similarity_from_52 interp_defs)

lemma run_gs_similarity:
  "run_script (gs_similarity lib) w =
     (case run_script (take 24 (gs_similarity lib)) w of
        (Inl x, s) \<Rightarrow> (Inl x, s)
      | (Inr u, s) \<Rightarrow> (Inl (NameError ''model''), s))"
proof -
  let ?s0 = "\<lparr>world = w, globals = Map.empty, trace = []\<rparr>"
  have unbound: "globals (snd (run_stmts (take 24 (gs_similarity lib)) ?s0)) ''model'' = None"
    by (rule model_unbound_before_52) simp
  have "run_stmts (gs_similarity lib) ?s0 =
      (case run_stmts (take 24 (gs_similarity lib)) ?s0 of
         (Inl x, s) \<Rightarrow> (Inl x, s)
       | (Inr u, s) \<Rightarrow> run_stmts (drop 24 (gs_similarity lib)) s)"
    by (subst gs_similarity_split) (rule run_stmts_append)
  also have "\<dots> =
      (case run_stmts (take 24 (gs_similarity lib)) ?s0 of
         (Inl x, s) \<Rightarrow> (Inl x, s)
       | (Inr u, s) \<Rightarrow> (Inl (NameError ''model''), s))"
    using unbound by (auto split: prod.splits sum.splits simp: from_52_unbound)
  finally show ?thesis by (simp add: run_script_def run_in_def)
qed

lemma calls_before_52:
  "prefix (calls (trace (snd (run_script (take 24 (gs_similarity lib)) w)))) gs_similarity_calls"
  using emits_before_52 [of lib]
  unfolding emits_def run_script_def run_in_def
  by (metis append_Nil pstate.select_convs(3))


text \<open>
  C9, as amended. For every library and every world: the run of \<^verbatim>\<open>gs_similarity.py\<close>
  ends with the failure of the statements before line 52 if one of them fails, and with
  \<^verbatim>\<open>NameError\<close> for \<^verbatim>\<open>model\<close> at line 52 otherwise, so the script never
  completes; and in no run is \<^verbatim>\<open>evaluate_word_pairs\<close> or
  \<^verbatim>\<open>evaluate_word_analogies\<close> called.
\<close>

theorem gs_similarity_stops_at_line_52:
  "fst (run_script (gs_similarity lib) w) =
     (case fst (run_script (take 24 (gs_similarity lib)) w) of
        Inl x \<Rightarrow> Inl x | Inr u \<Rightarrow> Inl (NameError ''model''))
   \<and> Evaluate_word_pairs \<notin> set (calls (trace (snd (run_script (gs_similarity lib) w))))
   \<and> Evaluate_word_analogies \<notin> set (calls (trace (snd (run_script (gs_similarity lib) w))))"
proof -
  have tr: "trace (snd (run_script (gs_similarity lib) w)) =
      trace (snd (run_script (take 24 (gs_similarity lib)) w))"
    by (simp add: run_gs_similarity split: prod.splits sum.splits)
  have "set (calls (trace (snd (run_script (take 24 (gs_similarity lib)) w))))
      \<subseteq> set gs_similarity_calls"
    using calls_before_52 [of lib w] by (rule set_mono_prefix)
  then have "Evaluate_word_pairs \<notin> set (calls (trace (snd (run_script (gs_similarity lib) w))))"
    and "Evaluate_word_analogies \<notin> set (calls (trace (snd (run_script (gs_similarity lib) w))))"
    unfolding tr by (auto simp: gs_similarity_calls_def)
  moreover have "fst (run_script (gs_similarity lib) w) =
     (case fst (run_script (take 24 (gs_similarity lib)) w) of
        Inl x \<Rightarrow> Inl x | Inr u \<Rightarrow> Inl (NameError ''model''))"
    by (simp add: run_gs_similarity split: prod.splits sum.splits)
  ultimately show ?thesis by simp
qed


text \<open>
  C9, counterexample to the claim as stated (``unconditionally raises a
  \<^verbatim>\<open>NameError\<close> at line 52''): when the download at line 4 fails, the run ends there
  with the library's exception and line 52 is not reached.
\<close>

theorem gs_similarity_offline_no_name_error:
  "fst (run_script (gs_similarity demo_offline) (0, [])) = Inl (Raised ''ConnectionError'')
   \<and> fst (run_script (gs_similarity demo_offline) (0, [])) \<noteq> Inl (NameError ''model'')"
  by (simp add: offline_run)



section \<open>Readings of the added events, in sequence\<close>

lemma signatures_append [simp]: "signatures (t @ u) = signatures t @ signatures u"
  by (simp add: signatures_def List.map_filter_def)





lemma yields_single: "yields proj c as \<Longrightarrow> yields proj (run_stmts [c]) as"
  unfolding yields_def
proof
  fix s
  assume "\<forall>s. \<exists>evs. trace (snd (c s)) = trace s @ evs \<and> prefix (proj evs) as \<and>
      (case fst (c s) of Inl x \<Rightarrow> True | Inr u \<Rightarrow> proj evs = as)"
  then obtain p where p: "trace (snd (c s)) = trace s @ p" "prefix (proj p) as"
    "case fst (c s) of Inl x \<Rightarrow> True | Inr u \<Rightarrow> proj p = as" by blast
  then show "\<exists>evs. trace (snd (run_stmts [c] s)) = trace s @ evs \<and> prefix (proj evs) as \<and>
      (case fst (run_stmts [c] s) of Inl x \<Rightarrow> True | Inr u \<Rightarrow> proj evs = as)"
    by (intro exI[of _ p]) (auto split: prod.splits sum.splits)
qed





















section \<open>The file names of \<^verbatim>\<open>gs_similarity.py\<close>\<close>






section \<open>The training call of \<^verbatim>\<open>gs_train_model.py\<close>\<close>




section \<open>Order of the calls, and which results are printed\<close>
























lemma stdout_lines_append [simp]: "stdout_lines (t @ u) = stdout_lines t @ stdout_lines u"
  by (simp add: stdout_lines_def List.map_filter_def)















section \<open>The scripts leave the mapping as the load or the training made it\<close>




































end
